theory Spec2Isabelle
  imports Complex_Main "HOL-Library.Sublist"
begin

text \<open>
  A model of \<open>LaddooHunt.py\<close>: the match classifier, the two probe backends, the worker
  loop, the dedup tracker, the checkpoint store and the startup and generation steps of
  \<open>main\<close>. State is passed explicitly; exceptions are values of a sum type, and every
  \<open>try\<close>/\<open>except\<close> of the source is a case distinction on them.
\<close>

section \<open>Strings and Python values\<close>

text \<open>
  \<open>pattern in s\<close> on Python strings: \<open>pattern\<close> occurs in \<open>s\<close> as a contiguous run.
  The scan tries every start position of \<open>s\<close>, the end of the string included
  (so the empty pattern occurs in every string).
\<close>

fun str_in :: "string \<Rightarrow> string \<Rightarrow> bool" where
  "str_in p [] = (p = [])"
| "str_in p (c # cs) = (prefix p (c # cs) \<or> str_in p cs)"

text \<open>
  The values the probe functions put into their result tuples and the worker unpacks:
  booleans, strings, \<open>None\<close>, lists of strings, and tuples of these.
\<close>

datatype pyval =
    PNone
  | PBool bool
  | PStr string
  | PList "string list"
  | PTuple "pyval list"

text \<open>An exception, carried as the text \<open>str(e)\<close> gives.\<close>

datatype exn = Exn string

fun exn_str :: "exn \<Rightarrow> string" where
  "exn_str (Exn m) = m"

text \<open>Truth value of an object in \<open>if valid:\<close>.\<close>

fun truthy :: "pyval \<Rightarrow> bool" where
  "truthy PNone = False"
| "truthy (PBool b) = b"
| "truthy (PStr s) = (s \<noteq> [])"
| "truthy (PList xs) = (xs \<noteq> [])"
| "truthy (PTuple xs) = (xs \<noteq> [])"

text \<open>
  Unpacking into \<open>n\<close> targets: the components of a tuple, the elements of a list or the
  characters of a string are counted, and another number than \<open>n\<close> raises ValueError;
  \<open>None\<close> and booleans are not iterable and raise TypeError. (The messages are
  Python's, without the counts they end in.)
\<close>

fun unpack :: "nat \<Rightarrow> pyval \<Rightarrow> exn + pyval list" where
  "unpack n (PTuple xs) =
     (if length xs = n then Inr xs
      else if length xs > n then Inl (Exn ''too many values to unpack'')
      else Inl (Exn ''not enough values to unpack''))"
| "unpack n (PList xs) =
     (if length xs = n then Inr (map PStr xs)
      else if length xs > n then Inl (Exn ''too many values to unpack'')
      else Inl (Exn ''not enough values to unpack''))"
| "unpack n (PStr s) =
     (if length s = n then Inr (map (\<lambda>c. PStr [c]) s)
      else if length s > n then Inl (Exn ''too many values to unpack'')
      else Inl (Exn ''not enough values to unpack''))"
| "unpack n v = Inl (Exn ''cannot unpack non-iterable object'')"

text \<open>\<open>len(result)\<close>.\<close>

fun py_len :: "pyval \<Rightarrow> exn + nat" where
  "py_len (PTuple xs) = Inr (length xs)"
| "py_len (PList xs) = Inr (length xs)"
| "py_len (PStr s) = Inr (length s)"
| "py_len v = Inl (Exn ''object has no len()'')"

section \<open>JSON documents and the checkpoint file\<close>

text \<open>
  What \<open>json.load\<close> returns: \<open>None\<close>, booleans, integers, floats (carried as the
  rational they denote; the non-finite literals are not represented), strings, lists,
  and objects as their members in the order of the text.
\<close>

datatype json =
    JNull
  | JBool bool
  | JInt int
  | JFloat rat
  | JStr string
  | JList "json list"
  | JObj "(string \<times> json) list"

text \<open>
  A file on disk, as \<open>json.load\<close> sees it: text the decoder rejects (with the decoder's
  message), or the document it reads. \<open>json.dump\<close> of a document of strings and numbers
  writes text that reads back as the same document.
\<close>

datatype file_content = Rejected string | Document json

text \<open>
  Elements of a Python set of JSON scalars, up to Python's equality: \<open>1\<close>, \<open>1.0\<close> and
  \<open>True\<close> are one element.
\<close>

datatype hkey = KNone | KNum rat | KStr string

section \<open>Configuration\<close>

definition LADDOO_PATTERNS :: "string list" where
  "LADDOO_PATTERNS = [''iplladdoo2025'', ''socialTitle=Psst'', ''Laddoo+for+you'']"

definition LADDOO_TYPES :: "string list" where
  "LADDOO_TYPES = [''Steady'', ''Sparky'', ''Zen'', ''Elastic'', ''Boom'', ''Dash'',
     ''Bazooka'', ''Dizzy'', ''Sunny'', ''Ninja'', ''Wally'']"

definition ENABLE_TELEGRAM :: bool where
  "ENABLE_TELEGRAM = True"

definition VERBOSE :: bool where
  "VERBOSE = True"

definition base_url :: string where
  "base_url = ''https://gpay.app.goo.gl/''"

section \<open>The environment: library functions and the network\<close>

text \<open>
  What the program calls but does not define. The standard-library string functions
  (\<open>urllib.parse.unquote\<close>, \<open>str.lower\<close>, \<open>str.strip\<close>, \<open>int\<close>) are parameters: every
  theorem holds for whatever they compute. The network is a table from the URL to what
  each kind of request gives: a value, or the exception it raises (timeout, connection
  failure, missing binary). Of the redirect-following curl call the exit status is kept
  beside the output (\<open>returncode\<close> and \<open>stdout\<close> of what \<open>subprocess.run\<close> returns; a
  curl that cannot connect raises nothing, it exits with a status other than 0 and
  prints the URL it last tried). \<open>system_name\<close> is the global \<open>SYSTEM_NAME\<close>, set once at
  startup. \<open>time_rejected\<close> holds of the numbers \<open>time.localtime\<close> refuses on this
  platform (out of range). \<open>disk_error\<close> is what writing the checkpoint raises, if
  anything.
\<close>

record env =
  py_unquote :: "string \<Rightarrow> string"
  py_lower :: "string \<Rightarrow> string"
  py_strip :: "string \<Rightarrow> string"
  py_int :: "string \<Rightarrow> exn + int"
  curl_http_code :: "string \<Rightarrow> exn + string"
  curl_url_effective :: "string \<Rightarrow> exn + int \<times> string"
  requests_head :: "string \<Rightarrow> exn + int"
  requests_get :: "string \<Rightarrow> exn + int \<times> string"
  send_valid_link :: "string \<Rightarrow> string \<Rightarrow> string list \<Rightarrow> string \<Rightarrow> string \<Rightarrow> exn + bool"
  system_name :: string
  time_rejected :: "rat \<Rightarrow> bool"
  disk_error :: "exn option"

section \<open>The observable state\<close>

text \<open>
  An f-string is kept as its literal text, with \<open>{}\<close> at each hole, and the values
  interpolated; the rendered line is not computed.
\<close>

datatype arg = AStr string | AInt int | AList "string list" | AVal pyval | AJson json

datatype fstring = F string "arg list"

text \<open>
  The requests of the two backends, each with its URL. Without following redirects:
  \<open>curl -o /dev/null -s -w %{http_code}\<close> and \<open>requests.head(allow_redirects=False)\<close>.
  Following them: \<open>curl -Ls -o /dev/null -w %{url_effective}\<close> and
  \<open>requests.get(allow_redirects=True)\<close>.
\<close>

datatype request = CurlHttpCode string | CurlFollow string | Head string | Get string

text \<open>
  \<open>logs\<close>: the entries \<open>log_message\<close> appended (level and message; the timestamp is
  left out). \<open>output_file\<close>: the lines appended to \<open>valid.txt\<close>, each line
  \<open>{url} -> {final_url} (Laddoo Type: {laddoo_type})\<close> kept as its three values.
  \<open>notifications\<close>: the calls of \<open>telegram_bot.send_valid_link\<close>, with their arguments.
  \<open>requests\<close>: the network requests made, in order.
  \<open>result_queue\<close>: the items put on the worker's result queue.
  \<open>count\<close>: the shared \<open>Counter\<close>.
  \<open>checkpoint_file\<close>, \<open>checkpoint_tmp\<close>: \<open>checkpoint.json\<close> and \<open>checkpoint.json.tmp\<close>,
  \<open>None\<close> when the file does not exist.
  Console output is not part of the state.
\<close>

record state =
  logs :: "(string \<times> fstring) list"
  output_file :: "(string \<times> string \<times> string) list"
  notifications :: "(string \<times> string \<times> string list \<times> string \<times> string) list"
  requests :: "request list"
  result_queue :: "fstring list"
  count :: int
  checkpoint_file :: "file_content option"
  checkpoint_tmp :: "file_content option"

definition init_state :: state where
  "init_state = \<lparr>logs = [], output_file = [], notifications = [], requests = [],
     result_queue = [], count = 0, checkpoint_file = None, checkpoint_tmp = None\<rparr>"

definition log_message :: "fstring \<Rightarrow> string \<Rightarrow> state \<Rightarrow> state" where
  "log_message message level st =
     (if \<not> VERBOSE then st else st\<lparr>logs := logs st @ [(level, message)]\<rparr>)"

definition do_request :: "request \<Rightarrow> state \<Rightarrow> state" where
  "do_request r st = st\<lparr>requests := requests st @ [r]\<rparr>"

section \<open>Dedup tracker\<close>

text \<open>
  \<open>UrlTracker\<close>: the set \<open>processed_urls\<close>. Each method body runs under the tracker's
  lock, so a call is one atomic step on the set.
\<close>

definition UrlTracker_init :: "string set" where
  "UrlTracker_init = {}"

definition is_processed :: "string \<Rightarrow> string set \<Rightarrow> bool" where
  "is_processed url processed_urls = (url \<in> processed_urls)"

definition mark_processed :: "string \<Rightarrow> string set \<Rightarrow> bool \<times> string set" where
  "mark_processed url processed_urls =
     (if url \<in> processed_urls then (False, processed_urls)
      else (True, insert url processed_urls))"

text \<open>A run of calls on one tracker: the values returned, in order, and the final set.\<close>

fun mark_all :: "string list \<Rightarrow> string set \<Rightarrow> bool list \<times> string set" where
  "mark_all [] s = ([], s)"
| "mark_all (k # ks) s =
     (case mark_processed k s of (r, s') \<Rightarrow>
        (case mark_all ks s' of (rs, s'') \<Rightarrow> (r # rs, s'')))"

section \<open>Match classification\<close>

text \<open>\<open>extract_laddoo_type\<close>: the loop over \<open>LADDOO_TYPES\<close>, then the default.\<close>

fun extract_from :: "env \<Rightarrow> string list \<Rightarrow> string \<Rightarrow> string" where
  "extract_from E [] url = ''Other''"
| "extract_from E (laddoo_type # rest) url =
     (if str_in (py_lower E laddoo_type) (py_lower E url) then laddoo_type
      else extract_from E rest url)"

definition extract_laddoo_type :: "env \<Rightarrow> string \<Rightarrow> string" where
  "extract_laddoo_type E url = extract_from E LADDOO_TYPES url"

text \<open>
  The pattern loop, written twice in the source with the same body
  (\<open>check_url_curl\<close> and \<open>check_url_requests\<close>): it carries \<open>all_patterns_found\<close>,
  \<open>found_patterns\<close>, \<open>missing_patterns\<close> and the state (for the log).
\<close>

fun pattern_loop ::
  "string list \<Rightarrow> string \<Rightarrow> string \<Rightarrow> bool \<times> string list \<times> string list \<times> state
     \<Rightarrow> bool \<times> string list \<times> string list \<times> state" where
  "pattern_loop [] final_url decoded_url acc = acc"
| "pattern_loop (pattern # rest) final_url decoded_url
       (all_patterns_found, found_patterns, missing_patterns, st) =
     (let in_raw = str_in pattern final_url;
          in_decoded = str_in pattern decoded_url
      in if in_raw \<or> in_decoded then
           let st1 = (if in_raw
                      then log_message (F ''Found pattern in raw URL: {}'' [AStr pattern]) ''DEBUG'' st
                      else st);
               st2 = (if in_decoded
                      then log_message (F ''Found pattern in decoded URL: {}'' [AStr pattern]) ''DEBUG'' st1
                      else st1)
           in pattern_loop rest final_url decoded_url
                (all_patterns_found, found_patterns @ [pattern], missing_patterns, st2)
         else
           pattern_loop rest final_url decoded_url
             (False, found_patterns, missing_patterns @ [pattern],
              log_message (F ''Missing pattern: {}'' [AStr pattern]) ''DEBUG'' st))"

text \<open>
  The block from \<open>all_patterns_found = True\<close> to the end of the loop, on the final URL
  and its decoded form.
\<close>

definition check_patterns ::
  "string \<Rightarrow> string \<Rightarrow> state \<Rightarrow> bool \<times> string list \<times> string list \<times> state" where
  "check_patterns final_url decoded_url st =
     pattern_loop LADDOO_PATTERNS final_url decoded_url
       (True, [], [],
        log_message (F ''Checking for ALL patterns: {}'' [AList LADDOO_PATTERNS]) ''DEBUG'' st)"

section \<open>Probe client\<close>

text \<open>
  \<open>is_valid_url\<close>: the status check that follows no redirect. Everything the \<open>try\<close>
  body can raise (the request itself, \<open>int\<close> on curl's output) ends in the handler,
  which logs and returns \<open>False\<close>.
\<close>

definition is_valid_url :: "env \<Rightarrow> string \<Rightarrow> bool \<Rightarrow> state \<Rightarrow> bool \<times> state" where
  "is_valid_url E code use_curl st =
     (let url = base_url @ code;
          handler = (\<lambda>e s. (False,
             log_message (F ''Error checking URL validity for {}: {}'' [AStr url, AStr (exn_str e)])
               ''ERROR'' s))
      in if use_curl then
           (let st1 = do_request (CurlHttpCode url) st
            in case curl_http_code E url of
                 Inl e \<Rightarrow> handler e st1
               | Inr stdout \<Rightarrow>
                   (case py_int E (py_strip E stdout) of
                      Inl e \<Rightarrow> handler e st1
                    | Inr status_code \<Rightarrow>
                        (status_code \<ge> 200 \<and> status_code < 400,
                         log_message (F ''URL validity check for {} returned status code: {}''
                                        [AStr url, AInt status_code]) ''DEBUG'' st1)))
         else
           (let st1 = do_request (Head url) st
            in case requests_head E url of
                 Inl e \<Rightarrow> handler e st1
               | Inr status_code \<Rightarrow>
                   (status_code \<ge> 200 \<and> status_code < 400,
                    log_message (F ''URL validity check for {} returned status code: {}''
                                   [AStr url, AInt status_code]) ''DEBUG'' st1)))"

text \<open>
  The notification block of both probe functions: the call is recorded, a \<open>False\<close>
  result only prints, an exception is logged inside the block's own \<open>try\<close>.
\<close>

definition notify_telegram ::
  "env \<Rightarrow> string \<Rightarrow> string \<Rightarrow> string list \<Rightarrow> string \<Rightarrow> state \<Rightarrow> state" where
  "notify_telegram E code final_url found_patterns laddoo_type st =
     (if ENABLE_TELEGRAM then
        (let st1 = st\<lparr>notifications := notifications st @
                      [(code, final_url, found_patterns, system_name E, laddoo_type)]\<rparr>
         in case send_valid_link E code final_url found_patterns (system_name E) laddoo_type of
              Inl e \<Rightarrow> log_message (F ''Error sending Telegram notification: {}'' [AStr (exn_str e)])
                         ''ERROR'' st1
            | Inr success \<Rightarrow> st1)
      else st)"

text \<open>The append to \<open>valid.txt\<close>; the write itself is taken not to fail.\<close>

definition write_output :: "string \<Rightarrow> string \<Rightarrow> string \<Rightarrow> state \<Rightarrow> state" where
  "write_output url final_url laddoo_type st =
     st\<lparr>output_file := output_file st @ [(url, final_url, laddoo_type)]\<rparr>"

definition check_url_curl :: "env \<Rightarrow> string \<Rightarrow> state \<Rightarrow> pyval \<times> state" where
  "check_url_curl E code st0 =
     (let url = base_url @ code
      in case is_valid_url E code True st0 of (ok, st1) \<Rightarrow>
         if \<not> ok then
           (PTuple [PBool False, PStr code, PNone, PNone, PNone],
            log_message (F ''Skipping pattern check for invalid URL: {}'' [AStr url]) ''INFO'' st1)
         else
           (let st2 = log_message (F ''Running curl check for {}'' [AStr url]) ''INFO'' st1;
                st3 = do_request (CurlFollow url) st2
            in case curl_url_effective E url of
                 Inl e \<Rightarrow>
                   (PTuple [PBool False, PStr code, PStr (''Error: '' @ exn_str e), PNone, PNone],
                    log_message (F ''Error in curl check: {}'' [AStr (exn_str e)]) ''ERROR'' st3)
               | Inr (returncode, stdout) \<Rightarrow>
                   (let final_url = py_strip E stdout;
                        decoded_url = py_unquote E final_url;
                        st4 = log_message (F ''URL analysis:'' []) ''DEBUG'' st3;
                        st5 = log_message (F ''Original URL: {}'' [AStr url]) ''DEBUG'' st4;
                        st6 = log_message (F ''Final URL: {}'' [AStr final_url]) ''DEBUG'' st5;
                        st7 = log_message (F ''Decoded URL: {}'' [AStr decoded_url]) ''DEBUG'' st6
                    in case check_patterns final_url decoded_url st7 of
                         (all_patterns_found, found_patterns, missing_patterns, st8) \<Rightarrow>
                         if all_patterns_found then
                           (let st9 = log_message (F ''All {} required patterns found!''
                                        [AInt (int (length LADDOO_PATTERNS))]) ''SUCCESS'' st8;
                                st10 = log_message (F ''VALID Laddoo URL found: {}'' [AStr url])
                                         ''SUCCESS'' st9;
                                st11 = log_message (F ''All patterns found: {}'' [AList found_patterns])
                                         ''INFO'' st10;
                                laddoo_type = extract_laddoo_type E decoded_url;
                                st12 = log_message (F ''Identified laddoo type: {}'' [AStr laddoo_type])
                                         ''INFO'' st11;
                                st13 = log_message (F ''URL {} is valid with patterns: {}''
                                         [AStr url, AList found_patterns]) ''INFO'' st12;
                                st14 = log_message (F ''Redirects to: {}'' [AStr final_url]) ''INFO'' st13;
                                st15 = log_message (F ''Laddoo Type: {}'' [AStr laddoo_type]) ''INFO'' st14;
                                st16 = write_output url final_url laddoo_type st15;
                                st17 = notify_telegram E code final_url found_patterns laddoo_type st16
                            in (PTuple [PBool True, PStr code, PStr url, PStr final_url,
                                        PList found_patterns, PStr laddoo_type], st17))
                         else
                           (let st9 = log_message (F ''Found only {}/{} required patterns''
                                        [AInt (int (length found_patterns)),
                                         AInt (int (length LADDOO_PATTERNS))]) ''INFO'' st8;
                                st10 = log_message (F ''Missing patterns: {}'' [AList missing_patterns])
                                         ''DEBUG'' st9
                            in (PTuple [PBool False, PStr code, PNone, PStr final_url, PNone], st10)))))"

definition check_url_requests :: "env \<Rightarrow> string \<Rightarrow> state \<Rightarrow> pyval \<times> state" where
  "check_url_requests E code st0 =
     (let url = base_url @ code
      in case is_valid_url E code False st0 of (ok, st1) \<Rightarrow>
         if \<not> ok then
           (PTuple [PBool False, PStr code, PNone, PNone, PNone],
            log_message (F ''Skipping pattern check for invalid URL: {}'' [AStr url]) ''INFO'' st1)
         else
           (let st2 = log_message (F ''Running requests check for {}'' [AStr url]) ''INFO'' st1;
                st3 = do_request (Get url) st2
            in case requests_get E url of
                 Inl e \<Rightarrow>
                   (PTuple [PBool False, PStr code, PStr (''Error: '' @ exn_str e), PNone, PNone],
                    log_message (F ''Error in requests check: {}'' [AStr (exn_str e)]) ''ERROR'' st3)
               | Inr (status_code, final_url) \<Rightarrow>
                   (let decoded_url = py_unquote E final_url;
                        st4 = log_message (F ''URL analysis:'' []) ''DEBUG'' st3;
                        st5 = log_message (F ''Original URL: {}'' [AStr url]) ''DEBUG'' st4;
                        st6 = log_message (F ''Status Code: {}'' [AInt status_code]) ''DEBUG'' st5;
                        st7 = log_message (F ''Final URL: {}'' [AStr final_url]) ''DEBUG'' st6;
                        st8 = log_message (F ''Decoded URL: {}'' [AStr decoded_url]) ''DEBUG'' st7
                    in case check_patterns final_url decoded_url st8 of
                         (all_patterns_found, found_patterns, missing_patterns, st9) \<Rightarrow>
                         if all_patterns_found then
                           (let st10 = log_message (F ''All {} required patterns found!''
                                         [AInt (int (length LADDOO_PATTERNS))]) ''SUCCESS'' st9;
                                st11 = log_message (F ''VALID Laddoo URL found: {}'' [AStr url])
                                         ''SUCCESS'' st10;
                                st12 = log_message (F ''All patterns found: {}'' [AList found_patterns])
                                         ''INFO'' st11
                            in if all_patterns_found \<or> length found_patterns > 0 then
                                 (let laddoo_type = extract_laddoo_type E decoded_url;
                                      st13 = log_message (F ''Identified laddoo type: {}''
                                               [AStr laddoo_type]) ''INFO'' st12;
                                      st14 = write_output url final_url laddoo_type st13;
                                      st15 = notify_telegram E code final_url found_patterns
                                               laddoo_type st14
                                  in (PTuple [PBool True, PStr code, PStr url, PStr final_url,
                                              PList found_patterns, PStr laddoo_type], st15))
                               else (PNone, st12))
                         else
                           (let st10 = log_message (F ''Found only {}/{} required patterns''
                                         [AInt (int (length found_patterns)),
                                          AInt (int (length LADDOO_PATTERNS))]) ''INFO'' st9;
                                st11 = log_message (F ''Missing patterns: {}'' [AList missing_patterns])
                                         ''DEBUG'' st10
                            in (PTuple [PBool False, PStr code, PNone, PStr final_url, PNone], st11)))))"

section \<open>Worker\<close>

definition check_func :: "bool \<Rightarrow> env \<Rightarrow> string \<Rightarrow> state \<Rightarrow> pyval \<times> state" where
  "check_func use_curl = (if use_curl then check_url_curl else check_url_requests)"

text \<open>\<open>Counter.increment\<close>, under the counter's lock.\<close>

definition increment :: "state \<Rightarrow> int \<times> state" where
  "increment st = (count st + 1, st\<lparr>count := count st + 1\<rparr>)"

text \<open>
  One pass of the worker's \<open>try\<close> body for a dequeued code, with the generic handler:
  what the unpacking raises is logged as a worker error, and the pass ends. When the
  unpacking succeeds the tuple has five components; \<open>valid\<close> and \<open>code\<close> are the first
  two.
\<close>

definition worker_item :: "bool \<Rightarrow> env \<Rightarrow> string \<Rightarrow> state \<Rightarrow> state" where
  "worker_item use_curl E code st0 =
     (case increment st0 of (n, st1) \<Rightarrow>
      let st2 = (if n mod 100 = 0
                 then log_message (F ''Progress: {} codes processed'' [AInt n]) ''INFO'' st1
                 else st1)
      in case check_func use_curl E code st2 of (r, st3) \<Rightarrow>
         (case unpack 5 r of
            Inl e \<Rightarrow> log_message (F ''Worker error: {}'' [AStr (exn_str e)]) ''ERROR'' st3
          | Inr vs \<Rightarrow>
              (let valid = vs ! 0; code' = vs ! 1
               in if truthy valid
                  then st3\<lparr>result_queue := result_queue st3 @
                              [F ''https://gpay.app.goo.gl/{}'' [AVal code']]\<rparr>
                  else st3)))"

text \<open>The state a worker pass hands to the probe.\<close>

definition before_probe :: "state \<Rightarrow> state" where
  "before_probe st =
     (if (count st + 1) mod 100 = 0
      then log_message (F ''Progress: {} codes processed'' [AInt (count st + 1)]) ''INFO''
             (st\<lparr>count := count st + 1\<rparr>)
      else st\<lparr>count := count st + 1\<rparr>)"

text \<open>
  The worker's loop, over what it observes in each round: whether the stop event is set
  at the loop head, what \<open>work_queue.get(timeout=1)\<close> gives (\<open>queue.Empty\<close>, or an item,
  \<open>None\<close> being the poison value), and whether the stop event is set after the item
  arrives. The list is a finite prefix of the rounds of one thread.
\<close>

datatype dequeued = Empty | Item "string option"

fun worker :: "bool \<Rightarrow> env \<Rightarrow> (bool \<times> dequeued \<times> bool) list \<Rightarrow> state \<Rightarrow> state" where
  "worker use_curl E [] st = st"
| "worker use_curl E ((stop_at_head, got, stop_after_get) # rounds) st =
     (if stop_at_head then st
      else case got of
             Empty \<Rightarrow> worker use_curl E rounds st
           | Item None \<Rightarrow> st
           | Item (Some code) \<Rightarrow>
               if stop_after_get then st
               else worker use_curl E rounds (worker_item use_curl E code st))"

text \<open>
  \<open>test_single_code\<close>: the result is unpacked into six names when it has at least six
  components, into five otherwise; an exception of the unpacking or of \<open>len\<close> leaves the
  function. It returns \<open>valid\<close>.
\<close>

definition test_single_code :: "env \<Rightarrow> string \<Rightarrow> bool \<Rightarrow> state \<Rightarrow> (exn + pyval) \<times> state" where
  "test_single_code E code use_curl st0 =
     (case check_func use_curl E code st0 of (result, st1) \<Rightarrow>
      (case py_len result of
         Inl e \<Rightarrow> (Inl e, st1)
       | Inr n \<Rightarrow>
           (case unpack (if n \<ge> 6 then 6 else 5) result of
              Inl e \<Rightarrow> (Inl e, st1)
            | Inr vs \<Rightarrow>
                (let valid = vs ! 0; code' = vs ! 1
                 in if \<not> truthy valid
                    then (Inr valid,
                          log_message (F ''Tested URL: https://gpay.app.goo.gl/{} - Not valid''
                                         [AVal code']) ''INFO'' st1)
                    else (Inr valid, st1)))))"

section \<open>Checkpoint store\<close>

text \<open>Truth value of a loaded value, as \<open>or\<close> tests it.\<close>

fun json_truthy :: "json \<Rightarrow> bool" where
  "json_truthy JNull = False"
| "json_truthy (JBool b) = b"
| "json_truthy (JInt i) = (i \<noteq> 0)"
| "json_truthy (JFloat f) = (f \<noteq> 0)"
| "json_truthy (JStr s) = (s \<noteq> [])"
| "json_truthy (JList xs) = (xs \<noteq> [])"
| "json_truthy (JObj kvs) = (kvs \<noteq> [])"

definition py_or :: "json \<Rightarrow> json \<Rightarrow> json" where
  "py_or a b = (if json_truthy a then a else b)"

text \<open>\<open>d.get(key, default)\<close> on a dict: of a key written twice, the later member counts.\<close>

definition dict_get :: "(string \<times> json) list \<Rightarrow> string \<Rightarrow> json \<Rightarrow> json" where
  "dict_get kvs key dflt = (case map_of (rev kvs) key of Some v \<Rightarrow> v | None \<Rightarrow> dflt)"

fun hash_key :: "json \<Rightarrow> hkey option" where
  "hash_key JNull = Some KNone"
| "hash_key (JBool b) = Some (KNum (if b then 1 else 0))"
| "hash_key (JInt i) = Some (KNum (of_int i))"
| "hash_key (JFloat f) = Some (KNum f)"
| "hash_key (JStr s) = Some (KStr s)"
| "hash_key (JList xs) = None"
| "hash_key (JObj kvs) = None"

fun hash_keys :: "json list \<Rightarrow> hkey list option" where
  "hash_keys [] = Some []"
| "hash_keys (x # xs) =
     (case hash_key x of
        None \<Rightarrow> None
      | Some k \<Rightarrow> (case hash_keys xs of None \<Rightarrow> None | Some ks \<Rightarrow> Some (k # ks)))"

text \<open>
  \<open>set(x)\<close>: the elements of a list (TypeError when one is a list or a dict), the
  characters of a string, the keys of a dict; anything else is not iterable.
\<close>

fun py_set :: "json \<Rightarrow> exn + hkey set" where
  "py_set (JList xs) =
     (case hash_keys xs of
        None \<Rightarrow> Inl (Exn ''unhashable type'')
      | Some ks \<Rightarrow> Inr (set ks))"
| "py_set (JStr s) = Inr (set (map (\<lambda>c. KStr [c]) s))"
| "py_set (JObj kvs) = Inr (set (map (\<lambda>kv. KStr (fst kv)) kvs))"
| "py_set v = Inl (Exn ''object is not iterable'')"

text \<open>
  What \<open>time.localtime(x)\<close> raises: nothing for \<open>None\<close> (the current time is used),
  an error for a number out of the platform's range, TypeError for the rest.
\<close>

definition range_error :: "env \<Rightarrow> rat \<Rightarrow> exn option" where
  "range_error E t =
     (if time_rejected E t then Some (Exn ''timestamp out of range for platform time_t'') else None)"

fun localtime_error :: "env \<Rightarrow> json \<Rightarrow> exn option" where
  "localtime_error E JNull = None"
| "localtime_error E (JBool b) = range_error E (if b then 1 else 0)"
| "localtime_error E (JInt i) = range_error E (of_int i)"
| "localtime_error E (JFloat f) = range_error E f"
| "localtime_error E v = Some (Exn ''an integer is required'')"

text \<open>
  \<open>save_checkpoint\<close>. \<open>processed\<close> is the set of codes given by its elements in the
  order \<open>list(processed)\<close> yields them; \<open>now\<close> is the reading of \<open>time.time()\<close>.
  An error while writing is taken before the canonical file is touched.
\<close>

definition move_tmp :: "state \<Rightarrow> state" where
  "move_tmp st = st\<lparr>checkpoint_file := checkpoint_tmp st, checkpoint_tmp := None\<rparr>"

definition save_checkpoint :: "env \<Rightarrow> string list \<Rightarrow> int \<Rightarrow> rat \<Rightarrow> state \<Rightarrow> bool \<times> state" where
  "save_checkpoint E processed counter_value now st =
     (let checkpoint_data = JObj [(''codes'', JList (map JStr processed)),
                                  (''counter'', JInt counter_value),
                                  (''timestamp'', JFloat now)]
      in case disk_error E of
           Some e \<Rightarrow>
             (False, log_message (F ''Failed to save checkpoint: {}'' [AStr (exn_str e)]) ''ERROR'' st)
         | None \<Rightarrow>
             (let st1 = st\<lparr>checkpoint_tmp := Some (Document checkpoint_data)\<rparr>;
                  st2 = (if checkpoint_file st1 \<noteq> None then move_tmp st1 else move_tmp st1)
              in (True,
                  log_message (F ''Checkpoint saved with {} codes'' [AInt counter_value]) ''INFO'' st2)))"

text \<open>
  The \<open>try\<close> body of \<open>load_checkpoint\<close> once the file exists: \<open>Inl\<close> is the exception
  that reaches the handler. The first \<open>.get\<close> raises AttributeError unless the document
  is an object. The values are the set of codes, the count and the timestamp read.
\<close>

definition read_checkpoint :: "env \<Rightarrow> rat \<Rightarrow> file_content \<Rightarrow> exn + hkey set \<times> json \<times> json" where
  "read_checkpoint E now content =
     (case content of
        Rejected m \<Rightarrow> Inl (Exn m)
      | Document checkpoint_data \<Rightarrow>
          (case checkpoint_data of
             JObj kvs \<Rightarrow>
               (case py_set (py_or (dict_get kvs ''codes'' (JList []))
                                   (dict_get kvs ''processed_codes'' (JList []))) of
                  Inl e \<Rightarrow> Inl e
                | Inr processed_codes \<Rightarrow>
                    (let processed_count = py_or (dict_get kvs ''counter'' (JInt 0))
                                                 (dict_get kvs ''processed_count'' (JInt 0));
                         ts = dict_get kvs ''timestamp'' (JFloat now)
                     in case localtime_error E ts of
                          Some e \<Rightarrow> Inl e
                        | None \<Rightarrow> Inr (processed_codes, processed_count, ts)))
           | _ \<Rightarrow> Inl (Exn ''object has no attribute get'')))"

definition load_checkpoint :: "env \<Rightarrow> rat \<Rightarrow> state \<Rightarrow> (hkey set \<times> json) \<times> state" where
  "load_checkpoint E now st =
     (case checkpoint_file st of
        None \<Rightarrow> (({}, JInt 0), st)
      | Some content \<Rightarrow>
          (case read_checkpoint E now content of
             Inl e \<Rightarrow>
               (({}, JInt 0),
                log_message (F ''Error loading checkpoint: {}'' [AStr (exn_str e)]) ''ERROR'' st)
           | Inr (processed_codes, processed_count, ts) \<Rightarrow>
               ((processed_codes, processed_count),
                log_message (F ''Checkpoint loaded: {} codes from {}''
                               [AJson processed_count, AJson ts]) ''INFO'' st)))"

section \<open>Orchestrator\<close>

text \<open>
  The checkpoint part of \<open>main\<close>: load, build the counter, and the resume prompt, which
  is asked only when codes were loaded; \<open>resume_choice\<close> is the answer typed. The result
  is the global \<open>processed_codes\<close>; the counter is \<open>count\<close> of the state. (The start
  of the auto-save thread and the backend prompt, which lie between these steps in
  \<open>main\<close>, change neither the set nor the counter and are left out, with their log
  entries.)
\<close>

definition startup :: "env \<Rightarrow> rat \<Rightarrow> string \<Rightarrow> state \<Rightarrow> hkey set \<times> state" where
  "startup E now resume_choice st0 =
     (case load_checkpoint E now st0 of ((processed_codes, last_count), st1) \<Rightarrow>
      let st2 = st1\<lparr>count := int (card processed_codes)\<rparr>;
          st3 = log_message (F ''Checkpoint loaded: {} codes processed''
                  [AInt (int (card processed_codes))]) ''INFO'' st2
      in if card processed_codes > 0 then
           (let resume = (py_lower E resume_choice = ''y'')
            in if \<not> resume then
                 ({}, log_message (F ''Starting fresh session, ignoring checkpoint'' []) ''INFO''
                        (st3\<lparr>count := 0\<rparr>))
               else
                 (processed_codes,
                  log_message (F ''Resuming from checkpoint with {} processed codes''
                    [AInt (int (card processed_codes))]) ''INFO'' st3))
         else (processed_codes, st3))"

text \<open>
  The generation loop over the codes \<open>generate_random_code\<close> draws: a code in
  \<open>processed_codes\<close> is skipped, another one is put on the work queue and added to the
  set. (The timed checkpoint save and the back-off sleep of the loop body touch neither
  the queue nor the set, and are left out.)
\<close>

fun generation_loop :: "string list \<Rightarrow> hkey set \<Rightarrow> string list \<Rightarrow> hkey set \<times> string list" where
  "generation_loop [] processed_codes work_queue = (processed_codes, work_queue)"
| "generation_loop (code # drawn) processed_codes work_queue =
     (if KStr code \<in> processed_codes then generation_loop drawn processed_codes work_queue
      else generation_loop drawn (insert (KStr code) processed_codes) (work_queue @ [code]))"

text \<open>
  The pool draining the work queue. Every item is dequeued by one worker and handled by
  one pass of its loop body; the passes are taken here in queue order.
\<close>

definition drain :: "bool \<Rightarrow> env \<Rightarrow> string list \<Rightarrow> state \<Rightarrow> state" where
  "drain use_curl E work_queue st =
     worker use_curl E (map (\<lambda>code. (False, Item (Some code), False)) work_queue) st"

text \<open>
  One run after startup: the optional single-code test (\<open>test_code\<close> is \<open>None\<close> when
  the user declines or types nothing), then the bruteforce over the codes drawn, of which
  the pool has dequeued the first \<open>n\<close> when the run stops. An exception leaving
  \<open>test_single_code\<close> ends the run before any code is generated.
\<close>

definition hunt ::
  "bool \<Rightarrow> env \<Rightarrow> string option \<Rightarrow> string list \<Rightarrow> hkey set \<Rightarrow> nat \<Rightarrow> state \<Rightarrow> state" where
  "hunt use_curl E test_code drawn processed_codes n st0 =
     (let work_queue = snd (generation_loop drawn processed_codes [])
      in case test_code of
           None \<Rightarrow> drain use_curl E (take n work_queue) st0
         | Some c \<Rightarrow>
             (case test_single_code E c use_curl st0 of
                (Inl e, st1) \<Rightarrow> log_message (F ''Error: {}'' [AStr (exn_str e)]) ''ERROR'' st1
              | (Inr v, st1) \<Rightarrow> drain use_curl E (take n work_queue) st1))"

text \<open>The validity flag of a probe result: the first component of the tuple.\<close>

fun result_valid :: "pyval \<Rightarrow> bool" where
  "result_valid (PTuple (v # vs)) = truthy v"
| "result_valid r = False"

text \<open>A candidate is a confirmed match when its probe returns a valid result.\<close>

definition confirmed :: "bool \<Rightarrow> env \<Rightarrow> string \<Rightarrow> bool" where
  "confirmed use_curl E code = result_valid (fst (check_func use_curl E code init_state))"

text \<open>
  How often a match key stands in the output file, and how often the notifier was called
  for a code.
\<close>

definition lines_for :: "string \<Rightarrow> state \<Rightarrow> nat" where
  "lines_for code st = length (filter (\<lambda>l. fst l = base_url @ code) (output_file st))"

definition notices_for :: "string \<Rightarrow> state \<Rightarrow> nat" where
  "notices_for code st = length (filter (\<lambda>n. fst n = code) (notifications st))"

section \<open>A concrete environment\<close>

text \<open>
  Instances of the library functions on ASCII text, and a small network, used to run
  the model on concrete inputs. The short link of \<open>Gone00\<close> redirects to a host that
  refuses the connection: \<open>requests.get\<close> raises, curl exits with status 7 and prints
  the URL it could not reach.
\<close>

definition ascii_lower :: "string \<Rightarrow> string" where
  "ascii_lower s =
     map (\<lambda>c. let n = (of_char c :: nat) in if 65 \<le> n \<and> n \<le> 90 then char_of (n + 32) else c) s"

definition hex_digit :: "char \<Rightarrow> nat option" where
  "hex_digit c =
     (let n = (of_char c :: nat)
      in if 48 \<le> n \<and> n \<le> 57 then Some (n - 48)
         else if 65 \<le> n \<and> n \<le> 70 then Some (n - 55)
         else if 97 \<le> n \<and> n \<le> 102 then Some (n - 87)
         else None)"

fun unquote_ascii :: "string \<Rightarrow> string" where
  "unquote_ascii (c # h # l # cs) =
     (if c = CHR ''%'' then
        (case (hex_digit h, hex_digit l) of
           (Some a, Some b) \<Rightarrow> char_of (16 * a + b) # unquote_ascii cs
         | _ \<Rightarrow> c # unquote_ascii (h # l # cs))
      else c # unquote_ascii (h # l # cs))"
| "unquote_ascii cs = cs"

definition is_space :: "char \<Rightarrow> bool" where
  "is_space c = (let n = (of_char c :: nat) in n = 32 \<or> (9 \<le> n \<and> n \<le> 13))"

definition ascii_strip :: "string \<Rightarrow> string" where
  "ascii_strip s = rev (dropWhile is_space (rev (dropWhile is_space s)))"

fun decimal :: "string \<Rightarrow> int \<Rightarrow> int option" where
  "decimal [] acc = Some acc"
| "decimal (c # cs) acc =
     (let n = (of_char c :: nat)
      in if 48 \<le> n \<and> n \<le> 57 then decimal cs (10 * acc + int (n - 48)) else None)"

definition decimal_int :: "string \<Rightarrow> exn + int" where
  "decimal_int s =
     (if s = [] then Inl (Exn ''invalid literal for int() with base 10'')
      else case decimal s 0 of
             None \<Rightarrow> Inl (Exn ''invalid literal for int() with base 10'')
           | Some n \<Rightarrow> Inr n)"

definition match_target :: string where
  "match_target = ''https://pay.test/o?c=iplladdoo2025&socialTitle=Psst&t=Laddoo%2Bfor%2Byou&k=BOOM_zen''"

definition partial_target :: string where
  "partial_target = ''https://pay.test/o?c=iplladdoo2025&socialTitle=Psst''"

definition gone_target :: string where
  "gone_target = ''http://10.255.255.1/o?c=iplladdoo2025&socialTitle=Psst&t=Laddoo+for+you''"

definition demo_env :: env where
  "demo_env = \<lparr>
     py_unquote = unquote_ascii,
     py_lower = ascii_lower,
     py_strip = ascii_strip,
     py_int = decimal_int,
     curl_http_code = (\<lambda>u.
        if u = base_url @ ''Match1'' then Inr ''302''
        else if u = base_url @ ''Part01'' then Inr ''302''
        else if u = base_url @ ''Dead00'' then Inr ''404''
        else if u = base_url @ ''Junk00'' then Inr ''<html>''
        else if u = base_url @ ''Lost00'' then Inr ''301''
        else if u = base_url @ ''Gone00'' then Inr ''302''
        else Inl (Exn ''timed out'')),
     curl_url_effective = (\<lambda>u.
        if u = base_url @ ''Match1'' then Inr (0, match_target @ '' '')
        else if u = base_url @ ''Part01'' then Inr (0, partial_target)
        else if u = base_url @ ''Gone00'' then Inr (7, gone_target)
        else Inl (Exn ''timed out'')),
     requests_head = (\<lambda>u.
        if u = base_url @ ''Match1'' then Inr 302
        else if u = base_url @ ''Part01'' then Inr 302
        else if u = base_url @ ''Dead00'' then Inr 404
        else if u = base_url @ ''Lost00'' then Inr 301
        else if u = base_url @ ''Gone00'' then Inr 302
        else Inl (Exn ''connection refused'')),
     requests_get = (\<lambda>u.
        if u = base_url @ ''Match1'' then Inr (200, match_target)
        else if u = base_url @ ''Part01'' then Inr (200, partial_target)
        else if u = base_url @ ''Gone00'' then Inl (Exn ''connection refused'')
        else Inl (Exn ''read timed out'')),
     send_valid_link = (\<lambda>code redirect_url patterns_found name laddoo_type. Inr True),
     system_name = ''demo'',
     time_rejected = (\<lambda>t. t < 0 \<or> 100000000000 < t),
     disk_error = None\<rparr>"

section \<open>Substring search and the pattern loop\<close>

text \<open>\<open>str_in\<close> decides occurrence as a contiguous run: \<open>s = ps @ p @ ss\<close> for some \<open>ps\<close>, \<open>ss\<close>.\<close>

lemma str_in_sublist: "str_in p s \<longleftrightarrow> sublist p s"
  by (induction s) (auto simp: sublist_Cons_right)

lemma pattern_loop_result:
  "pattern_loop ps f d (a, fo, mi, st) = (a', fo', mi', st') \<Longrightarrow>
     a' = (a \<and> (\<forall>p \<in> set ps. sublist p f \<or> sublist p d)) \<and>
     fo' = fo @ filter (\<lambda>p. sublist p f \<or> sublist p d) ps \<and>
     mi' = mi @ filter (\<lambda>p. \<not> (sublist p f \<or> sublist p d)) ps"
proof (induction ps arbitrary: a fo mi st)
  case Nil
  then show ?case by simp
next
  case (Cons p ps)
  show ?case
  proof (cases "sublist p f \<or> sublist p d")
    case True
    then obtain st2 where "pattern_loop ps f d (a, fo @ [p], mi, st2) = (a', fo', mi', st')"
      using Cons.prems by (simp add: str_in_sublist Let_def)
    from Cons.IH[OF this] True show ?thesis by simp
  next
    case False
    then obtain st2 where "pattern_loop ps f d (False, fo, mi @ [p], st2) = (a', fo', mi', st')"
      using Cons.prems by (simp add: str_in_sublist Let_def)
    from Cons.IH[OF this] False show ?thesis by auto
  qed
qed

lemma check_patterns_result:
  "check_patterns f d st = (a, fo, mi, st') \<Longrightarrow>
     a = (\<forall>p \<in> set LADDOO_PATTERNS. sublist p f \<or> sublist p d) \<and>
     fo = filter (\<lambda>p. sublist p f \<or> sublist p d) LADDOO_PATTERNS \<and>
     mi = filter (\<lambda>p. \<not> (sublist p f \<or> sublist p d)) LADDOO_PATTERNS"
  unfolding check_patterns_def by (drule pattern_loop_result) simp

lemma log_message_eq: "log_message m l st = st\<lparr>logs := logs st @ [(l, m)]\<rparr>"
  by (simp add: log_message_def VERBOSE_def)

lemma pattern_loop_frame:
  "pattern_loop ps f d (a, fo, mi, st) = (a', fo', mi', st') \<Longrightarrow>
     \<exists>lg. st' = st\<lparr>logs := logs st @ lg\<rparr>"
proof (induction ps arbitrary: a fo mi st)
  case Nil
  then have "st' = st\<lparr>logs := logs st @ []\<rparr>" by simp
  then show ?case by blast
next
  case (Cons p ps)
  from Cons.prems obtain a1 fo1 mi1 st1 lg1
    where step: "pattern_loop ps f d (a1, fo1, mi1, st1) = (a', fo', mi', st')"
      and st1: "st1 = st\<lparr>logs := logs st @ lg1\<rparr>"
    by (auto simp: Let_def log_message_eq split: if_splits)
  from Cons.IH[OF step] obtain lg2 where "st' = st1\<lparr>logs := logs st1 @ lg2\<rparr>" by blast
  with st1 have "st' = st\<lparr>logs := logs st @ (lg1 @ lg2)\<rparr>" by simp
  then show ?case by blast
qed

lemma check_patterns_frame:
  "check_patterns f d st = (a, fo, mi, st') \<Longrightarrow> \<exists>lg. st' = st\<lparr>logs := logs st @ lg\<rparr>"
proof -
  assume "check_patterns f d st = (a, fo, mi, st')"
  then obtain lg where "st' = (log_message (F ''Checking for ALL patterns: {}'' [AList LADDOO_PATTERNS]) ''DEBUG'' st)
      \<lparr>logs := logs (log_message (F ''Checking for ALL patterns: {}'' [AList LADDOO_PATTERNS]) ''DEBUG'' st) @ lg\<rparr>"
    unfolding check_patterns_def using pattern_loop_frame by blast
  then have "st' = st\<lparr>logs := logs st @ ([(''DEBUG'', F ''Checking for ALL patterns: {}'' [AList LADDOO_PATTERNS])] @ lg)\<rparr>"
    by (simp add: log_message_eq)
  then show ?thesis by blast
qed


lemma check_patterns_full:
  "check_patterns f d st = (a, fo, mi, st') \<Longrightarrow>
     a = (\<forall>p \<in> set LADDOO_PATTERNS. sublist p f \<or> sublist p d) \<and>
     fo = filter (\<lambda>p. sublist p f \<or> sublist p d) LADDOO_PATTERNS \<and>
     mi = filter (\<lambda>p. \<not> (sublist p f \<or> sublist p d)) LADDOO_PATTERNS \<and>
     (\<exists>lg. st' = st\<lparr>logs := logs st @ lg\<rparr>)"
  using check_patterns_result[of f d st a fo mi st'] check_patterns_frame[of f d st a fo mi st']
  by blast


text \<open>
  C1. The pattern check of a final URL and its decoded form \<open>unquote(final_url)\<close>:
  \<open>all_patterns_found\<close> (the first component) is true exactly when every pattern of
  \<open>LADDOO_PATTERNS\<close> occurs in the raw URL or in the decoded one, and
  \<open>missing_patterns\<close> (the third component) lists, in order, the patterns that occur in
  neither.
\<close>

theorem all_patterns_found_iff:
  "fst (check_patterns final_url (py_unquote E final_url) st) =
     (\<forall>p \<in> set LADDOO_PATTERNS. sublist p final_url \<or> sublist p (py_unquote E final_url)) \<and>
   fst (snd (snd (check_patterns final_url (py_unquote E final_url) st))) =
     filter (\<lambda>p. \<not> (sublist p final_url \<or> sublist p (py_unquote E final_url))) LADDOO_PATTERNS"
  using check_patterns_result[of final_url "py_unquote E final_url" st]
  by (cases "check_patterns final_url (py_unquote E final_url) st") simp

text \<open>
  On the demo targets: the first holds every pattern, the third one only once decoded;
  the second lacks the third pattern.
\<close>

theorem all_patterns_found_iff_witness:
  "fst (check_patterns match_target (py_unquote demo_env match_target) init_state) \<and>
   sublist ''iplladdoo2025'' match_target \<and>
   sublist ''socialTitle=Psst'' match_target \<and>
   \<not> sublist ''Laddoo+for+you'' match_target \<and>
   sublist ''Laddoo+for+you'' (py_unquote demo_env match_target) \<and>
   \<not> fst (check_patterns partial_target (py_unquote demo_env partial_target) init_state) \<and>
   fst (snd (snd (check_patterns partial_target (py_unquote demo_env partial_target) init_state)))
     = [''Laddoo+for+you'']"
proof -
  have a: "\<forall>p \<in> set LADDOO_PATTERNS.
      sublist p match_target \<or> sublist p (py_unquote demo_env match_target)"
    by code_simp
  have b: "filter (\<lambda>p. \<not> (sublist p partial_target \<or> sublist p (py_unquote demo_env partial_target)))
             LADDOO_PATTERNS = [''Laddoo+for+you'']"
    by code_simp
  have c: "\<not> (\<forall>p \<in> set LADDOO_PATTERNS.
      sublist p partial_target \<or> sublist p (py_unquote demo_env partial_target))"
    by code_simp
  have d: "sublist ''iplladdoo2025'' match_target \<and>
           sublist ''socialTitle=Psst'' match_target \<and>
           \<not> sublist ''Laddoo+for+you'' match_target \<and>
           sublist ''Laddoo+for+you'' (py_unquote demo_env match_target)"
    by code_simp
  show ?thesis
    using a b c d all_patterns_found_iff[of match_target demo_env init_state]
      all_patterns_found_iff[of partial_target demo_env init_state]
    by simp
qed

section \<open>Category of a match\<close>

lemma extract_from_find:
  "extract_from E ts url =
     (case find (\<lambda>t. sublist (py_lower E t) (py_lower E url)) ts of
        Some t \<Rightarrow> t | None \<Rightarrow> ''Other'')"
  by (induction ts) (auto simp: str_in_sublist)

text \<open>
  C10. The category of a URL is the first label of \<open>LADDOO_TYPES\<close>, in list order, whose
  lower-cased form occurs in the lower-cased URL (\<open>find\<close> returns the first element
  that satisfies the test); when no label does, it is the default \<open>Other\<close>.
\<close>

theorem extract_laddoo_type_first_match:
  "extract_laddoo_type E url =
     (case find (\<lambda>label. sublist (py_lower E label) (py_lower E url)) LADDOO_TYPES of
        Some label \<Rightarrow> label
      | None \<Rightarrow> ''Other'')"
  by (simp add: extract_laddoo_type_def extract_from_find)

text \<open>A URL naming two labels gets the one that comes first in the list, whatever the case.\<close>

theorem extract_laddoo_type_first_match_witness:
  "extract_laddoo_type demo_env ''https://pay.test/o?k=BOOM_zen'' = ''Zen'' \<and>
   extract_laddoo_type demo_env ''https://pay.test/o?k=none'' = ''Other''"
proof -
  have a: "find (\<lambda>label. sublist (py_lower demo_env label)
                   (py_lower demo_env ''https://pay.test/o?k=BOOM_zen''))
             LADDOO_TYPES = Some ''Zen''"
    by code_simp
  have b: "find (\<lambda>label. sublist (py_lower demo_env label)
                   (py_lower demo_env ''https://pay.test/o?k=none''))
             LADDOO_TYPES = None"
    by code_simp
  show ?thesis
    using extract_laddoo_type_first_match[of demo_env "''https://pay.test/o?k=BOOM_zen''"]
      extract_laddoo_type_first_match[of demo_env "''https://pay.test/o?k=none''"]
    by (simp add: a b)
qed

section \<open>Dedup tracker\<close>

lemma mark_all_Cons:
  "mark_all (k # ks) s =
     (fst (mark_processed k s) # fst (mark_all ks (snd (mark_processed k s))),
      snd (mark_all ks (snd (mark_processed k s))))"
  by (simp split: prod.splits)

lemma snd_mark_all: "snd (mark_all ks s) = s \<union> set ks"
proof (induction ks arbitrary: s)
  case Nil
  then show ?case by simp
next
  case (Cons k ks)
  have "snd (mark_processed k s) = insert k s"
    by (auto simp: mark_processed_def)
  then show ?case
    by (simp only: mark_all_Cons Cons.IH snd_conv) auto
qed

text \<open>
  C5. On a tracker that has seen the calls \<open>ks\<close> since it was created, a call with \<open>k\<close>
  returns \<open>True\<close> and inserts \<open>k\<close> when \<open>k\<close> was not among them (the first call with
  \<open>k\<close>), and returns \<open>False\<close> and leaves the set as it is when it was (every later call).
\<close>

theorem mark_processed_first_call_only:
  "mark_processed k (snd (mark_all ks UrlTracker_init)) =
     (if k \<in> set ks then (False, snd (mark_all ks UrlTracker_init))
      else (True, insert k (snd (mark_all ks UrlTracker_init))))"
  by (simp add: snd_mark_all mark_processed_def UrlTracker_init_def)

theorem mark_processed_first_call_only_witness:
  "mark_processed ''k'' (snd (mark_all [] UrlTracker_init)) = (True, {''k''}) \<and>
   mark_processed ''k'' (snd (mark_all [''k''] UrlTracker_init)) = (False, {''k''}) \<and>
   mark_processed ''k'' (snd (mark_all [''k'', ''j'', ''k''] UrlTracker_init))
     = (False, {''k'', ''j''})"
  using mark_processed_first_call_only [of "''k''" "[]"]
        mark_processed_first_call_only [of "''k''" "[''k'']"]
        mark_processed_first_call_only [of "''k''" "[''k'', ''j'', ''k'']"]
  by (auto simp: mark_processed_def UrlTracker_init_def)

section \<open>Effects of a probe and of a worker pass\<close>

lemma check_url_requests_indep:
  "fst (check_url_requests E c st) = fst (check_url_requests E c st2)"
  by (auto simp: check_url_requests_def is_valid_url_def Let_def
        split: sum.splits prod.splits dest!: check_patterns_result)

lemma check_url_requests_outcome:
  "(\<exists>a b d. fst (check_url_requests E c st) = PTuple [PBool False, PStr c, a, b, d] \<and>
       output_file (snd (check_url_requests E c st)) = output_file st \<and>
       notifications (snd (check_url_requests E c st)) = notifications st) \<or>
   (\<exists>f fo t. fst (check_url_requests E c st) =
         PTuple [PBool True, PStr c, PStr (base_url @ c), PStr f, PList fo, PStr t] \<and>
       output_file (snd (check_url_requests E c st)) = output_file st @ [(base_url @ c, f, t)] \<and>
       notifications (snd (check_url_requests E c st)) =
         notifications st @ [(c, f, fo, system_name E, t)])"
  by (auto simp: check_url_requests_def is_valid_url_def Let_def log_message_eq do_request_def
        write_output_def notify_telegram_def ENABLE_TELEGRAM_def
        split: sum.splits prod.splits dest!: check_patterns_full)


lemma check_url_requests_fields:
  "result_queue (snd (check_url_requests E c st)) = result_queue st \<and>
   count (snd (check_url_requests E c st)) = count st"
  by (auto simp: check_url_requests_def is_valid_url_def Let_def log_message_eq do_request_def
        write_output_def notify_telegram_def
        split: sum.splits prod.splits dest!: check_patterns_full)

lemma check_url_curl_fields:
  "result_queue (snd (check_url_curl E c st)) = result_queue st \<and>
   count (snd (check_url_curl E c st)) = count st"
  by (auto simp: check_url_curl_def is_valid_url_def Let_def log_message_eq do_request_def
        write_output_def notify_telegram_def
        split: sum.splits prod.splits dest!: check_patterns_full)

lemma check_url_curl_indep:
  "fst (check_url_curl E c st) = fst (check_url_curl E c st2)"
  by (auto simp: check_url_curl_def is_valid_url_def Let_def
        split: sum.splits prod.splits dest!: check_patterns_result)

lemma check_url_curl_outcome:
  "(\<exists>a b d. fst (check_url_curl E c st) = PTuple [PBool False, PStr c, a, b, d] \<and>
       output_file (snd (check_url_curl E c st)) = output_file st \<and>
       notifications (snd (check_url_curl E c st)) = notifications st) \<or>
   (\<exists>f fo t. fst (check_url_curl E c st) =
         PTuple [PBool True, PStr c, PStr (base_url @ c), PStr f, PList fo, PStr t] \<and>
       output_file (snd (check_url_curl E c st)) = output_file st @ [(base_url @ c, f, t)] \<and>
       notifications (snd (check_url_curl E c st)) =
         notifications st @ [(c, f, fo, system_name E, t)])"
  by (auto simp: check_url_curl_def is_valid_url_def Let_def log_message_eq do_request_def
        write_output_def notify_telegram_def ENABLE_TELEGRAM_def
        split: sum.splits prod.splits dest!: check_patterns_full)

lemma check_func_fields:
  "result_queue (snd (check_func uc E c st)) = result_queue st \<and>
   count (snd (check_func uc E c st)) = count st"
  using check_url_curl_fields[of E c st] check_url_requests_fields[of E c st]
  by (simp add: check_func_def)

lemma check_func_indep: "fst (check_func uc E c st) = fst (check_func uc E c st2)"
  using check_url_curl_indep[of E c st st2] check_url_requests_indep[of E c st st2]
  by (simp add: check_func_def)

lemma check_func_outcome:
  "(\<exists>a b d. fst (check_func uc E c st) = PTuple [PBool False, PStr c, a, b, d] \<and>
       output_file (snd (check_func uc E c st)) = output_file st \<and>
       notifications (snd (check_func uc E c st)) = notifications st) \<or>
   (\<exists>f fo t. fst (check_func uc E c st) =
         PTuple [PBool True, PStr c, PStr (base_url @ c), PStr f, PList fo, PStr t] \<and>
       output_file (snd (check_func uc E c st)) = output_file st @ [(base_url @ c, f, t)] \<and>
       notifications (snd (check_func uc E c st)) =
         notifications st @ [(c, f, fo, system_name E, t)])"
  using check_url_curl_outcome[of E c st] check_url_requests_outcome[of E c st]
  by (simp add: check_func_def)

lemma confirmed_iff: "confirmed uc E c = result_valid (fst (check_func uc E c st))"
  unfolding confirmed_def using check_func_indep[of uc E c init_state st] by simp

lemma before_probe_fields:
  "count (before_probe st) = count st + 1 \<and> result_queue (before_probe st) = result_queue st \<and>
   output_file (before_probe st) = output_file st \<and> notifications (before_probe st) = notifications st"
  by (simp add: before_probe_def log_message_eq)

lemma worker_item_confirmed:
  assumes "confirmed uc E c"
  shows "worker_item uc E c st =
           log_message (F ''Worker error: {}'' [AStr ''too many values to unpack'']) ''ERROR''
             (snd (check_func uc E c (before_probe st)))"
proof -
  from assms have v: "result_valid (fst (check_func uc E c (before_probe st)))"
    by (simp add: confirmed_iff[of uc E c "before_probe st"])
  from check_func_outcome[of uc E c "before_probe st"] v
  obtain f fo t where "fst (check_func uc E c (before_probe st)) =
       PTuple [PBool True, PStr c, PStr (base_url @ c), PStr f, PList fo, PStr t]"
    by auto
  then show ?thesis
    by (cases "check_func uc E c (before_probe st)")
       (simp add: worker_item_def increment_def before_probe_def Let_def)
qed

lemma worker_item_unconfirmed:
  assumes "\<not> confirmed uc E c"
  shows "worker_item uc E c st = snd (check_func uc E c (before_probe st))"
proof -
  from assms have v: "\<not> result_valid (fst (check_func uc E c (before_probe st)))"
    by (simp add: confirmed_iff[of uc E c "before_probe st"])
  from check_func_outcome[of uc E c "before_probe st"] v
  obtain a b d where "fst (check_func uc E c (before_probe st)) =
       PTuple [PBool False, PStr c, a, b, d]"
    by auto
  then show ?thesis
    by (cases "check_func uc E c (before_probe st)")
       (simp add: worker_item_def increment_def before_probe_def Let_def)
qed

lemma worker_item_fields:
  "result_queue (worker_item uc E c st) = result_queue st \<and>
   count (worker_item uc E c st) = count st + 1"
  using worker_item_confirmed[of uc E c st] worker_item_unconfirmed[of uc E c st]
    check_func_fields[of uc E c "before_probe st"] before_probe_fields[of st]
  by (cases "confirmed uc E c") (simp_all add: log_message_eq)

lemma worker_result_queue: "result_queue (worker uc E rounds st) = result_queue st"
proof (induction rounds arbitrary: st)
  case Nil
  then show ?case by simp
next
  case (Cons r rounds)
  obtain h g a where r: "r = (h, g, a)" by (cases r)
  show ?case
    unfolding r using Cons.IH worker_item_fields
    by (simp split: dequeued.splits option.splits)
qed

section \<open>The status check\<close>

text \<open>
  C7. When the status check of a candidate (the request that follows no redirect) returns
  a status outside \<open>[200, 400)\<close>, the probe returns at once the result
  \<open>(False, code, None, None, None)\<close>, and the status check is the only request it has
  made: no redirect-following request follows. This holds for the \<open>requests\<close> backend
  and for the \<open>curl\<close> backend (where the status is \<open>int\<close> of curl's output).
\<close>

theorem invalid_status_stops_probe:
  "(requests_head E (base_url @ code) = Inr s \<and> \<not> (200 \<le> s \<and> s < 400) \<longrightarrow>
      fst (check_url_requests E code st) = PTuple [PBool False, PStr code, PNone, PNone, PNone] \<and>
      requests (snd (check_url_requests E code st)) = requests st @ [Head (base_url @ code)]) \<and>
   (curl_http_code E (base_url @ code) = Inr out \<and> py_int E (py_strip E out) = Inr s \<and>
      \<not> (200 \<le> s \<and> s < 400) \<longrightarrow>
      fst (check_url_curl E code st) = PTuple [PBool False, PStr code, PNone, PNone, PNone] \<and>
      requests (snd (check_url_curl E code st)) = requests st @ [CurlHttpCode (base_url @ code)])"
  by (simp add: check_url_requests_def check_url_curl_def is_valid_url_def Let_def log_message_eq
        do_request_def)

lemma demo_head_dead: "requests_head demo_env (base_url @ ''Dead00'') = Inr 404"
  by (simp add: demo_env_def)

lemma demo_curl_dead:
  "curl_http_code demo_env (base_url @ ''Dead00'') = Inr ''404'' \<and>
   py_int demo_env (py_strip demo_env ''404'') = Inr 404"
  by code_simp

theorem invalid_status_stops_probe_witness:
  "fst (check_url_requests demo_env ''Dead00'' init_state) =
     PTuple [PBool False, PStr ''Dead00'', PNone, PNone, PNone] \<and>
   requests (snd (check_url_requests demo_env ''Dead00'' init_state)) = [Head (base_url @ ''Dead00'')] \<and>
   fst (check_url_curl demo_env ''Dead00'' init_state) =
     PTuple [PBool False, PStr ''Dead00'', PNone, PNone, PNone] \<and>
   requests (snd (check_url_curl demo_env ''Dead00'' init_state)) = [CurlHttpCode (base_url @ ''Dead00'')]"
  using invalid_status_stops_probe[of demo_env "''Dead00''" 404 init_state "''404''"]
    demo_head_dead demo_curl_dead
  by (simp add: init_state_def)

section \<open>Transport errors\<close>

text \<open>
  Where a request of the probe raises (for either backend: the status check; \<open>int\<close> on
  curl's status output; the redirect-following request after a valid status), the
  handler logs an \<open>ERROR\<close> entry and the probe returns a result that is not valid.
\<close>

lemma raising_probe_is_invalid:
  "(requests_head E (base_url @ code) = Inl e \<longrightarrow>
      fst (check_url_requests E code st) = PTuple [PBool False, PStr code, PNone, PNone, PNone] \<and>
      logs (snd (check_url_requests E code st)) = logs st @
        [(''ERROR'', F ''Error checking URL validity for {}: {}''
            [AStr (base_url @ code), AStr (exn_str e)]),
         (''INFO'', F ''Skipping pattern check for invalid URL: {}'' [AStr (base_url @ code)])]) \<and>
   (requests_head E (base_url @ code) = Inr s \<and> 200 \<le> s \<and> s < 400 \<and>
    requests_get E (base_url @ code) = Inl e \<longrightarrow>
      fst (check_url_requests E code st) =
        PTuple [PBool False, PStr code, PStr (''Error: '' @ exn_str e), PNone, PNone] \<and>
      last (logs (snd (check_url_requests E code st))) =
        (''ERROR'', F ''Error in requests check: {}'' [AStr (exn_str e)])) \<and>
   (curl_http_code E (base_url @ code) = Inl e \<longrightarrow>
      fst (check_url_curl E code st) = PTuple [PBool False, PStr code, PNone, PNone, PNone] \<and>
      logs (snd (check_url_curl E code st)) = logs st @
        [(''ERROR'', F ''Error checking URL validity for {}: {}''
            [AStr (base_url @ code), AStr (exn_str e)]),
         (''INFO'', F ''Skipping pattern check for invalid URL: {}'' [AStr (base_url @ code)])]) \<and>
   (curl_http_code E (base_url @ code) = Inr out \<and> py_int E (py_strip E out) = Inl e \<longrightarrow>
      fst (check_url_curl E code st) = PTuple [PBool False, PStr code, PNone, PNone, PNone] \<and>
      logs (snd (check_url_curl E code st)) = logs st @
        [(''ERROR'', F ''Error checking URL validity for {}: {}''
            [AStr (base_url @ code), AStr (exn_str e)]),
         (''INFO'', F ''Skipping pattern check for invalid URL: {}'' [AStr (base_url @ code)])]) \<and>
   (curl_http_code E (base_url @ code) = Inr out \<and> py_int E (py_strip E out) = Inr s \<and>
    200 \<le> s \<and> s < 400 \<and> curl_url_effective E (base_url @ code) = Inl e \<longrightarrow>
      fst (check_url_curl E code st) =
        PTuple [PBool False, PStr code, PStr (''Error: '' @ exn_str e), PNone, PNone] \<and>
      last (logs (snd (check_url_curl E code st))) =
        (''ERROR'', F ''Error in curl check: {}'' [AStr (exn_str e)]))"
  by (simp add: check_url_requests_def check_url_curl_def is_valid_url_def Let_def log_message_eq
        do_request_def)

text \<open>
  C8 does not hold of the \<open>curl\<close> backend. The redirect-following curl call raises
  only on a timeout or a missing binary; a curl that cannot connect exits with a status
  other than 0 and prints the URL it last tried, and the source reads \<open>stdout\<close> and
  never \<open>returncode\<close>. So, whatever the exit status of that call: when the status check
  passed and the printed URL holds every pattern (raw or decoded), \<open>check_url_curl\<close>
  returns the valid 6-tuple, appends the line to the output file and calls the notifier.
  A connection failure of the second phase is then a confirmed match, where the claim
  asks for a result that is not valid.
\<close>

theorem curl_exit_status_unread:
  "curl_http_code E (base_url @ code) = Inr out \<Longrightarrow> py_int E (py_strip E out) = Inr s \<Longrightarrow>
   200 \<le> s \<Longrightarrow> s < 400 \<Longrightarrow>
   curl_url_effective E (base_url @ code) = Inr (returncode, stdout) \<Longrightarrow>
   (\<forall>p \<in> set LADDOO_PATTERNS.
      sublist p (py_strip E stdout) \<or> sublist p (py_unquote E (py_strip E stdout))) \<Longrightarrow>
     fst (check_url_curl E code st) =
       PTuple [PBool True, PStr code, PStr (base_url @ code), PStr (py_strip E stdout),
               PList LADDOO_PATTERNS,
               PStr (extract_laddoo_type E (py_unquote E (py_strip E stdout)))] \<and>
     output_file (snd (check_url_curl E code st)) = output_file st @
       [(base_url @ code, py_strip E stdout,
         extract_laddoo_type E (py_unquote E (py_strip E stdout)))] \<and>
     notifications (snd (check_url_curl E code st)) = notifications st @
       [(code, py_strip E stdout, LADDOO_PATTERNS, system_name E,
         extract_laddoo_type E (py_unquote E (py_strip E stdout)))]"
proof -
  assume h: "curl_http_code E (base_url @ code) = Inr out" "py_int E (py_strip E out) = Inr s"
    "200 \<le> s" "s < 400" "curl_url_effective E (base_url @ code) = Inr (returncode, stdout)"
  assume all: "\<forall>p \<in> set LADDOO_PATTERNS.
      sublist p (py_strip E stdout) \<or> sublist p (py_unquote E (py_strip E stdout))"
  then have fo: "filter (\<lambda>p. sublist p (py_strip E stdout) \<or>
                     sublist p (py_unquote E (py_strip E stdout))) LADDOO_PATTERNS = LADDOO_PATTERNS"
    by simp
  show ?thesis
    using h all fo
    by (auto simp: check_url_curl_def is_valid_url_def Let_def log_message_eq do_request_def
          write_output_def notify_telegram_def ENABLE_TELEGRAM_def
          split: sum.splits prod.splits dest!: check_patterns_full)
qed

lemma demo_env_gone:
  "curl_http_code demo_env (base_url @ ''Gone00'') = Inr ''302'' \<and>
   py_int demo_env (py_strip demo_env ''302'') = Inr 302 \<and>
   curl_url_effective demo_env (base_url @ ''Gone00'') = Inr (7, gone_target) \<and>
   py_strip demo_env gone_target = gone_target \<and>
   extract_laddoo_type demo_env (py_unquote demo_env gone_target) = ''Other'' \<and>
   system_name demo_env = ''demo'' \<and>
   requests_head demo_env (base_url @ ''Gone00'') = Inr 302 \<and>
   requests_get demo_env (base_url @ ''Gone00'') = Inl (Exn ''connection refused'')"
  by code_simp

lemma demo_gone_patterns:
  "\<forall>p \<in> set LADDOO_PATTERNS.
      sublist p (py_strip demo_env gone_target) \<or>
      sublist p (py_unquote demo_env (py_strip demo_env gone_target))"
  by code_simp

text \<open>
  On the demo network, for \<open>Gone00\<close>: curl exits with status 7 and the probe confirms,
  writes and notifies; \<open>requests.get\<close> raises and the probe of the other backend
  returns a result that is not valid.
\<close>

theorem curl_exit_status_unread_witness:
  "curl_url_effective demo_env (base_url @ ''Gone00'') = Inr (7, gone_target) \<and>
   fst (check_url_curl demo_env ''Gone00'' init_state) =
     PTuple [PBool True, PStr ''Gone00'', PStr (base_url @ ''Gone00''), PStr gone_target,
             PList LADDOO_PATTERNS, PStr ''Other''] \<and>
   output_file (snd (check_url_curl demo_env ''Gone00'' init_state)) =
     [(base_url @ ''Gone00'', gone_target, ''Other'')] \<and>
   notifications (snd (check_url_curl demo_env ''Gone00'' init_state)) =
     [(''Gone00'', gone_target, LADDOO_PATTERNS, ''demo'', ''Other'')] \<and>
   requests_get demo_env (base_url @ ''Gone00'') = Inl (Exn ''connection refused'') \<and>
   fst (check_url_requests demo_env ''Gone00'' init_state) =
     PTuple [PBool False, PStr ''Gone00'', PStr ''Error: connection refused'', PNone, PNone]"
  using curl_exit_status_unread[of demo_env "''Gone00''" "''302''" 302 7 gone_target init_state]
    raising_probe_is_invalid[where E = demo_env and code = "''Gone00''" and st = init_state
      and e = "Exn ''connection refused''" and s = 302]
    demo_env_gone demo_gone_patterns
  by (simp add: init_state_def)

section \<open>Confirmed matches in the worker\<close>

text \<open>
  With the \<open>requests\<close> backend, a candidate whose status check passes and whose
  redirects end at \<open>f\<close> is a confirmed match exactly when the pattern check of \<open>f\<close>
  succeeds.
\<close>

lemma confirmed_requests:
  "requests_head E (base_url @ c) = Inr s \<Longrightarrow> 200 \<le> s \<Longrightarrow> s < 400 \<Longrightarrow>
   requests_get E (base_url @ c) = Inr (sc, f) \<Longrightarrow>
     confirmed False E c = (\<forall>p \<in> set LADDOO_PATTERNS. sublist p f \<or> sublist p (py_unquote E f))"
  by (auto simp: confirmed_def check_func_def check_url_requests_def is_valid_url_def Let_def
        split: prod.splits dest!: check_patterns_result)

text \<open>The same for the \<open>curl\<close> backend, on the stripped output of the second call.\<close>

lemma confirmed_curl:
  "curl_http_code E (base_url @ c) = Inr out \<Longrightarrow> py_int E (py_strip E out) = Inr s \<Longrightarrow>
   200 \<le> s \<Longrightarrow> s < 400 \<Longrightarrow> curl_url_effective E (base_url @ c) = Inr (rc, stdout) \<Longrightarrow>
     confirmed True E c =
       (\<forall>p \<in> set LADDOO_PATTERNS.
          sublist p (py_strip E stdout) \<or> sublist p (py_unquote E (py_strip E stdout)))"
  by (auto simp: confirmed_def check_func_def check_url_curl_def is_valid_url_def Let_def
        split: prod.splits dest!: check_patterns_result)

lemma demo_env_match:
  "requests_head demo_env (base_url @ ''Match1'') = Inr 302 \<and>
   requests_get demo_env (base_url @ ''Match1'') = Inr (200, match_target)"
  by code_simp

lemma demo_match_patterns:
  "\<forall>p \<in> set LADDOO_PATTERNS.
      sublist p match_target \<or> sublist p (py_unquote demo_env match_target)"
  by code_simp

lemma demo_match_confirmed: "confirmed False demo_env ''Match1''"
  using confirmed_requests[of demo_env "''Match1''" 302 200 match_target]
    demo_env_match demo_match_patterns
  by simp

text \<open>
  C4. When a probe confirms a match, its result is the 6-tuple
  \<open>(True, code, url, final_url, found_patterns, laddoo_type)\<close>; the worker unpacks the
  result into 5 names, which raises ValueError on a 6-tuple; the worker's generic handler
  logs it as a worker error, and the pass ends there. So no pass of the worker, and no
  run of its loop, ever puts anything on the result queue: the success branch is not
  reached for a confirmed match, and the other results are not valid.
\<close>

theorem confirmed_match_never_enqueued:
  "(confirmed use_curl E code \<longrightarrow>
      (\<exists>final_url found_patterns laddoo_type.
         fst (check_func use_curl E code st) =
           PTuple [PBool True, PStr code, PStr (base_url @ code), PStr final_url,
                   PList found_patterns, PStr laddoo_type]) \<and>
      unpack 5 (fst (check_func use_curl E code st)) = Inl (Exn ''too many values to unpack'') \<and>
      last (logs (worker_item use_curl E code st)) =
        (''ERROR'', F ''Worker error: {}'' [AStr ''too many values to unpack''])) \<and>
   result_queue (worker_item use_curl E code st) = result_queue st \<and>
   result_queue (worker use_curl E rounds st) = result_queue st"
proof -
  have "\<exists>final_url found_patterns laddoo_type.
         fst (check_func use_curl E code st) =
           PTuple [PBool True, PStr code, PStr (base_url @ code), PStr final_url,
                   PList found_patterns, PStr laddoo_type]"
    if "confirmed use_curl E code"
    using that check_func_outcome[of use_curl E code st] confirmed_iff[of use_curl E code st]
    by auto
  moreover have "unpack 5 (fst (check_func use_curl E code st)) = Inl (Exn ''too many values to unpack'')"
    if "confirmed use_curl E code"
    using that check_func_outcome[of use_curl E code st] confirmed_iff[of use_curl E code st]
    by auto
  moreover have "last (logs (worker_item use_curl E code st)) =
        (''ERROR'', F ''Worker error: {}'' [AStr ''too many values to unpack''])"
    if "confirmed use_curl E code"
    using worker_item_confirmed[OF that, of st] by (simp add: log_message_eq)
  ultimately show ?thesis
    using worker_item_fields[of use_curl E code st] worker_result_queue[of use_curl E rounds st]
    by blast
qed

theorem confirmed_match_never_enqueued_witness:
  "confirmed False demo_env ''Match1'' \<and>
   unpack 5 (fst (check_func False demo_env ''Match1'' init_state)) =
     Inl (Exn ''too many values to unpack'') \<and>
   last (logs (worker_item False demo_env ''Match1'' init_state)) =
     (''ERROR'', F ''Worker error: {}'' [AStr ''too many values to unpack'']) \<and>
   result_queue (worker False demo_env [(False, Item (Some ''Match1''), False)] init_state) = []"
  using confirmed_match_never_enqueued[of False demo_env "''Match1''" init_state
      "[(False, Item (Some ''Match1''), False)]"] demo_match_confirmed
  by (simp add: init_state_def)

section \<open>Persisting and notifying a match\<close>

lemma generation_loop_queue:
  "distinct q \<Longrightarrow> KStr ` set q \<subseteq> pc \<Longrightarrow>
     distinct (snd (generation_loop drawn pc q)) \<and>
     set (snd (generation_loop drawn pc q)) = set q \<union> {c \<in> set drawn. KStr c \<notin> pc}"
proof (induction drawn arbitrary: pc q)
  case Nil
  then show ?case by simp
next
  case (Cons code drawn)
  show ?case
  proof (cases "KStr code \<in> pc")
    case True
    with Cons.IH[OF Cons.prems] show ?thesis by auto
  next
    case False
    with Cons.prems have fresh: "code \<notin> set q" by auto
    from Cons.prems fresh have d: "distinct (q @ [code])" by simp
    from Cons.prems have sub: "KStr ` set (q @ [code]) \<subseteq> insert (KStr code) pc" by auto
    from Cons.IH[OF d sub] False show ?thesis by auto
  qed
qed

lemma probe_lines:
  "lines_for k (snd (check_func uc E c st)) =
     lines_for k st + (if c = k \<and> confirmed uc E c then 1 else 0) \<and>
   notices_for k (snd (check_func uc E c st)) =
     notices_for k st + (if c = k \<and> confirmed uc E c then 1 else 0)"
  using check_func_outcome[of uc E c st] confirmed_iff[of uc E c st]
  by (auto simp: lines_for_def notices_for_def)

lemma worker_item_lines:
  "lines_for k (worker_item uc E c st) =
     lines_for k st + (if c = k \<and> confirmed uc E c then 1 else 0) \<and>
   notices_for k (worker_item uc E c st) =
     notices_for k st + (if c = k \<and> confirmed uc E c then 1 else 0)"
proof -
  have same: "lines_for k (before_probe st) = lines_for k st"
    "notices_for k (before_probe st) = notices_for k st"
    by (simp_all add: lines_for_def notices_for_def before_probe_fields)
  have logged: "lines_for k (log_message m l s) = lines_for k s"
    "notices_for k (log_message m l s) = notices_for k s" for m l s
    by (simp_all add: lines_for_def notices_for_def log_message_eq)
  show ?thesis
    using probe_lines[of k uc E c "before_probe st"] same
    by (cases "confirmed uc E c")
       (simp_all add: worker_item_confirmed worker_item_unconfirmed logged)
qed

lemma drain_lines:
  "distinct q \<Longrightarrow>
     lines_for k (drain uc E q st) =
       lines_for k st + (if k \<in> set q \<and> confirmed uc E k then 1 else 0) \<and>
     notices_for k (drain uc E q st) =
       notices_for k st + (if k \<in> set q \<and> confirmed uc E k then 1 else 0)"
proof (induction q arbitrary: st)
  case Nil
  then show ?case by (simp add: drain_def)
next
  case (Cons c q)
  from Cons.prems have d: "distinct q" and n: "c \<notin> set q" by simp_all
  have step: "drain uc E (c # q) st = drain uc E q (worker_item uc E c st)"
    by (simp add: drain_def)
  show ?case
    unfolding step using Cons.IH[OF d, of "worker_item uc E c st"] worker_item_lines[of k uc E c st] n
    by auto
qed

text \<open>
  C3 (amended). A probe that confirms a match appends one line to the output file and
  calls the notifier once, inside the probe function. The generation loop puts a code on
  the work queue at most once, and only when it is not in \<open>processed_codes\<close>. So in a run
  without the single-code test, where the pool has dequeued the first \<open>n\<close> codes of the
  queue, the number of lines for a key, and of notifier calls for its code, grows by
  exactly one when the code was dequeued and is a confirmed match, and not at all
  otherwise.
\<close>

theorem bruteforce_match_once:
  "lines_for k (hunt use_curl E None drawn processed_codes n st) =
     lines_for k st +
       (if k \<in> set (take n (snd (generation_loop drawn processed_codes []))) \<and>
           confirmed use_curl E k then 1 else 0) \<and>
   notices_for k (hunt use_curl E None drawn processed_codes n st) =
     notices_for k st +
       (if k \<in> set (take n (snd (generation_loop drawn processed_codes []))) \<and>
           confirmed use_curl E k then 1 else 0) \<and>
   distinct (snd (generation_loop drawn processed_codes [])) \<and>
   set (snd (generation_loop drawn processed_codes [])) =
     {c \<in> set drawn. KStr c \<notin> processed_codes}"
proof -
  have q: "distinct (snd (generation_loop drawn processed_codes []))"
    "set (snd (generation_loop drawn processed_codes [])) = {c \<in> set drawn. KStr c \<notin> processed_codes}"
    using generation_loop_queue[of "[]" processed_codes drawn] by simp_all
  then have "distinct (take n (snd (generation_loop drawn processed_codes [])))" by simp
  from drain_lines[OF this, of k use_curl E st] q show ?thesis
    by (simp add: hunt_def)
qed

lemma test_single_code_lines:
  "(\<exists>v. fst (test_single_code E c uc st) = Inr v) \<and>
   lines_for k (snd (test_single_code E c uc st)) =
     lines_for k st + (if c = k \<and> confirmed uc E c then 1 else 0) \<and>
   notices_for k (snd (test_single_code E c uc st)) =
     notices_for k st + (if c = k \<and> confirmed uc E c then 1 else 0)"
proof -
  have logged: "lines_for k (log_message m l s) = lines_for k s"
    "notices_for k (log_message m l s) = notices_for k s" for m l s
    by (simp_all add: lines_for_def notices_for_def log_message_eq)
  obtain r st1 where r: "check_func uc E c st = (r, st1)" by (cases "check_func uc E c st")
  from check_func_outcome[of uc E c st] r
  consider a b d where "r = PTuple [PBool False, PStr c, a, b, d]"
    | f fo t where "r = PTuple [PBool True, PStr c, PStr (base_url @ c), PStr f, PList fo, PStr t]"
    by auto
  then show ?thesis
  proof cases
    case 1
    with r probe_lines[of k uc E c st] show ?thesis
      by (simp add: test_single_code_def logged)
  next
    case 2
    with r probe_lines[of k uc E c st] show ?thesis
      by (simp add: test_single_code_def logged)
  qed
qed

lemma hunt_after_test:
  "lines_for k (hunt uc E (Some c) drawn pc n st) =
     lines_for k st + (if c = k \<and> confirmed uc E c then 1 else 0) +
       (if k \<in> set (take n (snd (generation_loop drawn pc []))) \<and> confirmed uc E k then 1 else 0) \<and>
   notices_for k (hunt uc E (Some c) drawn pc n st) =
     notices_for k st + (if c = k \<and> confirmed uc E c then 1 else 0) +
       (if k \<in> set (take n (snd (generation_loop drawn pc []))) \<and> confirmed uc E k then 1 else 0)"
proof -
  have "distinct (take n (snd (generation_loop drawn pc [])))"
    using generation_loop_queue[of "[]" pc drawn] by simp
  from drain_lines[OF this, of k uc E "snd (test_single_code E c uc st)"]
    test_single_code_lines[of E c uc st k]
  show ?thesis
    by (cases "test_single_code E c uc st") (auto simp: hunt_def)
qed

lemma demo_queue: "take 3 (snd (generation_loop [''Match1'', ''Dead00'', ''Match1''] {} [])) = [''Match1'', ''Dead00'']"
  by code_simp

lemma demo_queue1: "take 1 (snd (generation_loop [''Match1''] {} [])) = [''Match1'']"
  by code_simp

text \<open>
  C3 as stated fails: a code probed by the single-code test is not added to
  \<open>processed_codes\<close>; when the generator draws the same code afterwards it is probed
  again, and the match is written and notified a second time.
\<close>

theorem match_once_counterexample:
  "lines_for ''Match1'' (hunt False demo_env (Some ''Match1'') [''Match1''] {} 1 init_state) = 2 \<and>
   notices_for ''Match1'' (hunt False demo_env (Some ''Match1'') [''Match1''] {} 1 init_state) = 2"
  using hunt_after_test[of "''Match1''" False demo_env "''Match1''" "[''Match1'']" "{}" 1 init_state]
    demo_match_confirmed demo_queue1
  by (simp add: lines_for_def notices_for_def init_state_def)

theorem bruteforce_match_once_witness:
  "lines_for ''Match1'' (hunt False demo_env None [''Match1'', ''Dead00'', ''Match1''] {} 3 init_state) = 1 \<and>
   notices_for ''Match1'' (hunt False demo_env None [''Match1'', ''Dead00'', ''Match1''] {} 3 init_state) = 1"
  using bruteforce_match_once[of "''Match1''" False demo_env "[''Match1'', ''Dead00'', ''Match1'']" "{}" 3 init_state]
    demo_match_confirmed demo_queue
  by (simp add: lines_for_def notices_for_def init_state_def)

section \<open>Checkpoint store and startup\<close>

lemma hash_keys_strings: "hash_keys (map JStr xs) = Some (map KStr xs)"
  by (induction xs) simp_all

lemma py_set_strings: "py_set (JList (map JStr xs)) = Inr (KStr ` set xs)"
  by (simp add: hash_keys_strings)

lemma read_saved:
  "\<not> time_rejected E now \<Longrightarrow>
   read_checkpoint E now'
     (Document (JObj [(''codes'', JList (map JStr processed)), (''counter'', JInt n),
                      (''timestamp'', JFloat now)])) =
     Inr (KStr ` set processed, JInt n, JFloat now)"
proof -
  assume ok: "\<not> time_rejected E now"
  let ?kvs = "[(''codes'', JList (map JStr processed)), (''counter'', JInt n),
                (''timestamp'', JFloat now)]"
  have g: "dict_get ?kvs ''codes'' (JList []) = JList (map JStr processed)"
    "dict_get ?kvs ''processed_codes'' (JList []) = JList []"
    "dict_get ?kvs ''counter'' (JInt 0) = JInt n"
    "dict_get ?kvs ''processed_count'' (JInt 0) = JInt 0"
    "dict_get ?kvs ''timestamp'' (JFloat now') = JFloat now"
    by (simp_all add: dict_get_def)
  have codes: "py_or (JList (map JStr processed)) (JList []) = JList (map JStr processed)"
    by (cases processed) (simp_all add: py_or_def)
  have cnt: "py_or (JInt n) (JInt 0) = JInt n"
    by (simp add: py_or_def)
  show ?thesis
    using ok
    by (simp add: read_checkpoint_def g codes cnt hash_keys_strings range_error_def Let_def)
qed

lemma save_then_load:
  "disk_error E = None \<Longrightarrow> \<not> time_rejected E now \<Longrightarrow>
     fst (save_checkpoint E processed n now st) = True \<and>
     fst (load_checkpoint E now' (snd (save_checkpoint E processed n now st))) =
       (KStr ` set processed, JInt n)"
  by (simp add: save_checkpoint_def load_checkpoint_def move_tmp_def log_message_eq Let_def read_saved)

text \<open>
  C2. For every collection of codes (the empty one too) and every counter value, when the
  disk takes the write and \<open>time.localtime\<close> accepts the clock reading that was saved,
  \<open>load_checkpoint\<close> after \<open>save_checkpoint\<close> returns the set of the codes saved and
  the counter saved.
\<close>

theorem checkpoint_round_trip:
  "disk_error E = None \<Longrightarrow> \<not> time_rejected E now \<Longrightarrow>
     fst (load_checkpoint E now' (snd (save_checkpoint E processed n now st))) =
       (KStr ` set processed, JInt n)"
  using save_then_load by blast

lemma demo_disk: "disk_error demo_env = None \<and> \<not> time_rejected demo_env 1700000000"
  by (simp add: demo_env_def)

theorem checkpoint_round_trip_witness:
  "fst (load_checkpoint demo_env 1700000300
         (snd (save_checkpoint demo_env [''a1B2c3'', ''Zz9Yy8''] 2 1700000000 init_state))) =
     ({KStr ''a1B2c3'', KStr ''Zz9Yy8''}, JInt 2) \<and>
   fst (load_checkpoint demo_env 1700000300
         (snd (save_checkpoint demo_env [] 0 1700000000 init_state))) = ({}, JInt 0)"
  using checkpoint_round_trip[of demo_env 1700000000 1700000300 "[''a1B2c3'', ''Zz9Yy8'']" 2 init_state]
    checkpoint_round_trip[of demo_env 1700000000 1700000300 "[]" 0 init_state] demo_disk
  by simp

text \<open>
  C6. \<open>load_checkpoint\<close> returns the empty set and zero when the file is missing
  (nothing is logged); when reading the file raises, as for text the JSON decoder
  rejects, it logs the error and returns the empty set and zero; and the same holds for
  whatever else the body raises on the document read. It always returns a value: every
  exception of the body ends in the handler.
\<close>

theorem load_checkpoint_recovers:
  "(checkpoint_file st = None \<longrightarrow> load_checkpoint E now st = (({}, JInt 0), st)) \<and>
   (checkpoint_file st = Some (Rejected m) \<longrightarrow>
      load_checkpoint E now st =
        (({}, JInt 0), log_message (F ''Error loading checkpoint: {}'' [AStr m]) ''ERROR'' st)) \<and>
   (checkpoint_file st = Some content \<and> read_checkpoint E now content = Inl e \<longrightarrow>
      load_checkpoint E now st =
        (({}, JInt 0),
         log_message (F ''Error loading checkpoint: {}'' [AStr (exn_str e)]) ''ERROR'' st))"
  by (simp add: load_checkpoint_def read_checkpoint_def)

theorem load_checkpoint_recovers_witness:
  "load_checkpoint demo_env 1700000300 init_state = (({}, JInt 0), init_state) \<and>
   fst (load_checkpoint demo_env 1700000300
          (init_state\<lparr>checkpoint_file := Some (Rejected ''Expecting value'')\<rparr>)) = ({}, JInt 0) \<and>
   logs (snd (load_checkpoint demo_env 1700000300
          (init_state\<lparr>checkpoint_file := Some (Rejected ''Expecting value'')\<rparr>))) =
     [(''ERROR'', F ''Error loading checkpoint: {}'' [AStr ''Expecting value''])] \<and>
   fst (load_checkpoint demo_env 1700000300
          (init_state\<lparr>checkpoint_file := Some (Document (JObj [(''codes'', JInt 5)]))\<rparr>)) =
     ({}, JInt 0) \<and>
   logs (snd (load_checkpoint demo_env 1700000300
          (init_state\<lparr>checkpoint_file := Some (Document (JObj [(''codes'', JInt 5)]))\<rparr>))) =
     [(''ERROR'', F ''Error loading checkpoint: {}'' [AStr ''object is not iterable''])]"
proof -
  have r: "read_checkpoint demo_env 1700000300 (Document (JObj [(''codes'', JInt 5)])) =
             Inl (Exn ''object is not iterable'')"
    by (simp add: read_checkpoint_def dict_get_def py_or_def)
  show ?thesis
    using load_checkpoint_recovers[of init_state demo_env 1700000300]
      load_checkpoint_recovers[of "init_state\<lparr>checkpoint_file := Some (Rejected ''Expecting value'')\<rparr>"
        demo_env 1700000300 "''Expecting value''"]
      load_checkpoint_recovers[of "init_state\<lparr>checkpoint_file := Some (Document (JObj [(''codes'', JInt 5)]))\<rparr>"
        demo_env 1700000300 _ "Document (JObj [(''codes'', JInt 5)])" "Exn ''object is not iterable''"]
      r
    by (simp add: init_state_def log_message_eq)
qed

lemma startup_resumed:
  "fst (load_checkpoint E now st) = (S, last_count) \<Longrightarrow> py_lower E resume_choice = ''y'' \<Longrightarrow>
     fst (startup E now resume_choice st) = S \<and>
     count (snd (startup E now resume_choice st)) = int (card S)"
  by (cases "load_checkpoint E now st") (simp add: startup_def Let_def log_message_eq)

text \<open>
  C9 (amended). At startup the loaded set of codes becomes \<open>processed_codes\<close>, and
  after a resumed start the counter is the number of codes in that set; the count
  stored in the checkpoint is read and not used.
\<close>

theorem startup_counter_is_seen_size:
  "fst (load_checkpoint E now st) = (S, last_count) \<Longrightarrow> py_lower E resume_choice = ''y'' \<Longrightarrow>
     fst (startup E now resume_choice st) = S \<and>
     count (snd (startup E now resume_choice st)) = int (card S)"
  using startup_resumed by blast

lemma demo_yes: "py_lower demo_env ''Y'' = ''y''"
  by code_simp

text \<open>
  C9 as stated fails: a checkpoint saved with two codes enqueued and one of them probed
  stores the count 1; after a resumed start the counter is 2.
\<close>

theorem startup_counter_counterexample:
  "snd (fst (load_checkpoint demo_env 1700000300
          (snd (save_checkpoint demo_env [''a1B2c3'', ''Zz9Yy8''] 1 1700000000 init_state)))) = JInt 1 \<and>
   count (snd (startup demo_env 1700000300 ''Y''
          (snd (save_checkpoint demo_env [''a1B2c3'', ''Zz9Yy8''] 1 1700000000 init_state)))) = 2"
proof -
  have l: "fst (load_checkpoint demo_env 1700000300
          (snd (save_checkpoint demo_env [''a1B2c3'', ''Zz9Yy8''] 1 1700000000 init_state))) =
        (KStr ` set [''a1B2c3'', ''Zz9Yy8''], JInt 1)"
    using save_then_load[of demo_env 1700000000 "[''a1B2c3'', ''Zz9Yy8'']" 1 init_state 1700000300]
      demo_disk by simp
  from startup_resumed[OF l demo_yes] l show ?thesis by simp
qed

theorem startup_counter_is_seen_size_witness:
  "fst (startup demo_env 1700000300 ''Y''
          (snd (save_checkpoint demo_env [''a1B2c3'', ''Zz9Yy8''] 1 1700000000 init_state))) =
     {KStr ''a1B2c3'', KStr ''Zz9Yy8''} \<and>
   count (snd (startup demo_env 1700000300 ''Y''
          (snd (save_checkpoint demo_env [''a1B2c3'', ''Zz9Yy8''] 1 1700000000 init_state)))) = 2"
proof -
  have l: "fst (load_checkpoint demo_env 1700000300
          (snd (save_checkpoint demo_env [''a1B2c3'', ''Zz9Yy8''] 1 1700000000 init_state))) =
        (KStr ` set [''a1B2c3'', ''Zz9Yy8''], JInt 1)"
    using save_then_load[of demo_env 1700000000 "[''a1B2c3'', ''Zz9Yy8'']" 1 init_state 1700000300]
      demo_disk by simp
  from startup_counter_is_seen_size[OF l demo_yes] show ?thesis by simp
qed

end
